theory Spec2Isabelle
  imports Complex_Main "HOL-Library.Sublist" "HOL-Library.Char_ord" "HOL-Library.List_Lexorder"
begin

section \<open>Expense tracker: timeframe filter, spending analysis, quick-add parser\<close>

text \<open>
  A shallow embedding of \<^verbatim>\<open>app.py\<close> (\<^verbatim>\<open>df_from_rows\<close>, \<^verbatim>\<open>filter_by_timeframe\<close>) and
  \<^verbatim>\<open>analysis.py\<close> (\<^verbatim>\<open>rows_to_df\<close>, \<^verbatim>\<open>load_awareness_filename\<close>, \<^verbatim>\<open>analyze_spending\<close>,
  \<^verbatim>\<open>parse_nl_expense\<close>).

  Conventions of the model:
  \<^item> Python \<^verbatim>\<open>str\<close> is \<open>string\<close>; the text is taken to be ASCII, so the character classes
    of \<^verbatim>\<open>str.lower\<close>, \<^verbatim>\<open>str.strip\<close>, \<^verbatim>\<open>str.title\<close> and of the regular expression class
    \<^verbatim>\<open>\d\<close> are their ASCII parts; bytes from 128 on are left alone by all of them.
  \<^item> Python \<^verbatim>\<open>float\<close> is \<open>rat\<close>: sums, the quotient and the comparisons are exact. The
    rounding of IEEE doubles and the infinities are outside the model; the missing number
    \<^verbatim>\<open>NaN\<close> is \<open>None\<close> where a column can hold it.
  \<^item> The wall clock (\<^verbatim>\<open>pd.Timestamp.now()\<close>, \<^verbatim>\<open>datetime.now()\<close>) is the parameter \<open>now\<close>.
  \<^item> What pandas and the file system decide (parsing a string as a number or as a date,
    whether a file exists) is a field of the environment \<open>env\<close>.
\<close>

subsection \<open>Timestamps\<close>

text \<open>
  A naive timestamp: a calendar date and the time of day \<open>tod\<close>, counted in the smallest
  unit of the clock since midnight. \<^verbatim>\<open>NaT\<close> is \<open>None\<close> in a \<open>timestamp option\<close>.
\<close>

record timestamp =
  year :: int
  month :: nat
  day :: nat
  tod :: nat

definition is_leap :: "int \<Rightarrow> bool" where
  "is_leap y = (y mod 4 = 0 \<and> (y mod 100 \<noteq> 0 \<or> y mod 400 = 0))"

definition days_in_month :: "int \<Rightarrow> nat \<Rightarrow> nat" where
  "days_in_month y m =
     (if m = 2 then (if is_leap y then 29 else 28)
      else if m = 4 \<or> m = 6 \<or> m = 9 \<or> m = 11 then 30
      else 31)"

text \<open>What the constructors of \<^verbatim>\<open>Timestamp\<close> and \<^verbatim>\<open>datetime\<close> accept.\<close>

definition valid_ts :: "timestamp \<Rightarrow> bool" where
  "valid_ts t = (1 \<le> year t \<and> 1 \<le> month t \<and> month t \<le> 12
                 \<and> 1 \<le> day t \<and> day t \<le> days_in_month (year t) (month t))"

text \<open>\<^verbatim>\<open>a <= b\<close> on timestamps: chronological, that is lexicographic on the fields.\<close>

definition ts_le :: "timestamp \<Rightarrow> timestamp \<Rightarrow> bool" where
  "ts_le a b =
     (year a < year b \<or> (year a = year b \<and>
       (month a < month b \<or> (month a = month b \<and>
         (day a < day b \<or> (day a = day b \<and> tod a \<le> tod b))))))"

text \<open>\<^verbatim>\<open>t.replace(day=1)\<close> and \<^verbatim>\<open>t.replace(month=1, day=1)\<close>: the other fields, the time of
  day among them, stay.\<close>

definition replace_day1 :: "timestamp \<Rightarrow> timestamp" where
  "replace_day1 t = t\<lparr>day := 1\<rparr>"

definition replace_month1_day1 :: "timestamp \<Rightarrow> timestamp" where
  "replace_month1_day1 t = t\<lparr>month := 1, day := 1\<rparr>"

text \<open>\<^verbatim>\<open>t - pd.DateOffset(months=k)\<close>: \<open>k\<close> calendar months back, the day clipped to the
  length of the month reached, the time of day kept.\<close>

definition sub_months :: "timestamp \<Rightarrow> nat \<Rightarrow> timestamp" where
  "sub_months t k =
     (let n = year t * 12 + (int (month t) - 1) - int k;
          y = n div 12;
          m = nat (n mod 12) + 1
      in t\<lparr>year := y, month := m, day := min (day t) (days_in_month y m)\<rparr>)"

text \<open>\<^verbatim>\<open>t + pd.offsets.MonthEnd(0)\<close>: rolls forward to the last day of the month of \<open>t\<close>
  (and stays there when \<open>t\<close> is on it), the time of day kept.\<close>

definition month_end0 :: "timestamp \<Rightarrow> timestamp" where
  "month_end0 t = t\<lparr>day := days_in_month (year t) (month t)\<rparr>"

text \<open>\<^verbatim>\<open>t - pd.Timedelta(days=1)\<close>: the same time of day on the day before. (On the first
  day of year 1 Python raises \<^verbatim>\<open>OverflowError\<close>; the clock is never there.)\<close>

definition sub_one_day :: "timestamp \<Rightarrow> timestamp" where
  "sub_one_day t =
     (if 1 < day t then t\<lparr>day := day t - 1\<rparr>
      else if 1 < month t
        then t\<lparr>month := month t - 1, day := days_in_month (year t) (month t - 1)\<rparr>
      else t\<lparr>year := year t - 1, month := 12, day := 31\<rparr>)"

subsection \<open>Tables\<close>

text \<open>
  A row of a data frame with the columns \<^verbatim>\<open>id, amount, category, date\<close>. The types of the
  amount and category columns are parameters: \<^verbatim>\<open>df_from_rows\<close> leaves missing values in
  both, \<^verbatim>\<open>rows_to_df\<close> fills them.
\<close>

record ('a, 'c) row =
  row_id :: int
  amount :: 'a
  category :: 'c
  date :: "timestamp option"

subsection \<open>The timeframe filter (\<^verbatim>\<open>app.py\<close>)\<close>

text \<open>\<^verbatim>\<open>df[df["date"] >= start]\<close>: a comparison with \<^verbatim>\<open>NaT\<close> is false.\<close>

definition date_ge :: "timestamp \<Rightarrow> ('a, 'c) row \<Rightarrow> bool" where
  "date_ge start r = (case date r of None \<Rightarrow> False | Some d \<Rightarrow> ts_le start d)"

definition date_le :: "timestamp \<Rightarrow> ('a, 'c) row \<Rightarrow> bool" where
  "date_le end r = (case date r of None \<Rightarrow> False | Some d \<Rightarrow> ts_le d end)"

definition filter_by_timeframe ::
  "timestamp \<Rightarrow> ('a, 'c) row list \<Rightarrow> string \<Rightarrow> ('a, 'c) row list" where
  "filter_by_timeframe now df timeframe =
     (if df = [] then df
      else if timeframe = ''This Month'' then
        (let start = replace_day1 now
         in filter (date_ge start) df)
      else if timeframe = ''Last Month'' then
        (let prev = sub_months now 1;
             start = replace_day1 prev;
             end = month_end0 (replace_day1 prev)
         in filter (\<lambda>r. date_ge start r \<and> date_le end r) df)
      else if timeframe = ''Last 3 Months'' then
        (let start = replace_day1 (sub_months now 3)
         in filter (date_ge start) df)
      else if timeframe = ''This Year'' then
        (let start = replace_month1_day1 now
         in filter (date_ge start) df)
      else if timeframe = ''All Time'' then df
      else df)"

subsection \<open>Python strings\<close>

definition upper_letters :: string where
  "upper_letters = ''ABCDEFGHIJKLMNOPQRSTUVWXYZ''"

definition lower_letters :: string where
  "lower_letters = ''abcdefghijklmnopqrstuvwxyz''"

definition is_upper :: "char \<Rightarrow> bool" where
  "is_upper c = (c \<in> set upper_letters)"

definition is_lower :: "char \<Rightarrow> bool" where
  "is_lower c = (c \<in> set lower_letters)"

definition is_digit :: "char \<Rightarrow> bool" where
  "is_digit c = (c \<in> set ''0123456789'')"

text \<open>The ASCII characters that \<^verbatim>\<open>str.isspace\<close> accepts: tab, line feed, vertical tab, form
  feed, carriage return, the four separators \<^verbatim>\<open>\x1c\<close> to \<^verbatim>\<open>\x1f\<close>, and the space.\<close>

definition is_space :: "char \<Rightarrow> bool" where
  "is_space c = (c \<in> set [CHR 0x09, CHR 0x0A, CHR 0x0B, CHR 0x0C, CHR 0x0D,
                          CHR 0x1C, CHR 0x1D, CHR 0x1E, CHR 0x1F, CHR '' ''])"

definition lower_char :: "char \<Rightarrow> char" where
  "lower_char c = (case map_of (zip upper_letters lower_letters) c of Some d \<Rightarrow> d | None \<Rightarrow> c)"

definition upper_char :: "char \<Rightarrow> char" where
  "upper_char c = (case map_of (zip lower_letters upper_letters) c of Some d \<Rightarrow> d | None \<Rightarrow> c)"

text \<open>\<^verbatim>\<open>s.lower()\<close> and \<^verbatim>\<open>s.strip()\<close>.\<close>

definition lower :: "string \<Rightarrow> string" where
  "lower s = map lower_char s"

definition strip :: "string \<Rightarrow> string" where
  "strip s = rev (dropWhile is_space (rev (dropWhile is_space s)))"

text \<open>\<^verbatim>\<open>s.title()\<close>: a letter that follows a letter is lower-cased, any other letter is
  upper-cased; the flag says whether the previous character was a letter.\<close>

fun title_from :: "bool \<Rightarrow> string \<Rightarrow> string" where
  "title_from prev [] = []"
| "title_from prev (c # cs) =
     (if is_upper c \<or> is_lower c
      then (if prev then lower_char c else upper_char c) # title_from True cs
      else c # title_from False cs)"

definition title :: "string \<Rightarrow> string" where
  "title s = title_from False s"

text \<open>\<^verbatim>\<open>"\n".join(lines)\<close>.\<close>

fun join_lines :: "string list \<Rightarrow> string" where
  "join_lines [] = []"
| "join_lines [l] = l"
| "join_lines (l # ls) = l @ [CHR 0x0A] @ join_lines ls"

text \<open>The decimal digits of a natural number.\<close>

definition digit_char :: "nat \<Rightarrow> char" where
  "digit_char n = ''0123456789'' ! n"

function string_of_nat :: "nat \<Rightarrow> string" where
  "string_of_nat n =
     (if n < 10 then [digit_char n] else string_of_nat (n div 10) @ [digit_char (n mod 10)])"
  by pat_completeness auto
termination
  by (relation "measure id") auto

declare string_of_nat.simps [simp del]

text \<open>\<^verbatim>\<open>f"{x:.1f}"\<close>: one digit after the point, the exact value rounded to the nearest tenth
  and a tie to the even one; the sign is printed whenever \<open>x\<close> is negative.\<close>

definition round_half_even :: "rat \<Rightarrow> nat" where
  "round_half_even q =
     (let f = \<lfloor>q\<rfloor>; r = q - of_int f
      in nat (if r < 1 / 2 then f else if 1 / 2 < r then f + 1
              else if even f then f else f + 1))"

definition format_1f :: "rat \<Rightarrow> string" where
  "format_1f x =
     (let n = round_half_even (\<bar>x\<bar> * 10)
      in (if x < 0 then ''-'' else '''')
         @ string_of_nat (n div 10) @ ''.'' @ string_of_nat (n mod 10))"

text \<open>\<^verbatim>\<open>os.path.join(a, b)\<close> on a POSIX system.\<close>

definition path_join :: "string \<Rightarrow> string \<Rightarrow> string" where
  "path_join a b =
     (if b \<noteq> [] \<and> hd b = CHR ''/'' then b
      else if a = [] \<or> last a = CHR ''/'' then a @ b
      else a @ ''/'' @ b)"

subsection \<open>Raw rows and the environment\<close>

text \<open>
  A raw row is a tuple \<^verbatim>\<open>(id, amount, category, date)\<close> as the store or a caller hands it
  over. The amount is missing (\<^verbatim>\<open>None\<close> or \<^verbatim>\<open>NaN\<close>), a number or a string; the category is
  missing or a string; the date is missing (\<^verbatim>\<open>None\<close> or \<^verbatim>\<open>NaT\<close>), a string or a timestamp.
\<close>

datatype num_cell = NNull | NNum rat | NStr string

datatype date_cell = DNull | DStr string | DTime timestamp

type_synonym raw_row = "int \<times> num_cell \<times> string option \<times> date_cell"

text \<open>
  What the code leaves to pandas and to the file system. \<open>parse_num\<close> is how
  \<^verbatim>\<open>pd.to_numeric\<close> reads a string and \<open>parse_date\<close>, \<open>parse_date_mixed\<close> how \<^verbatim>\<open>pd.to_datetime\<close>
  reads one without and with \<^verbatim>\<open>format="mixed"\<close>; \<open>None\<close> is a string that does not parse.
  \<open>path_exists\<close> is \<^verbatim>\<open>os.path.exists\<close> and \<open>awareness_dir\<close> the constant \<^verbatim>\<open>AWARENESS_DIR\<close>.
\<close>

record env =
  parse_num :: "string \<Rightarrow> rat option"
  parse_date :: "string \<Rightarrow> timestamp option"
  parse_date_mixed :: "string \<Rightarrow> timestamp option"
  path_exists :: "string \<Rightarrow> bool"
  awareness_dir :: string

text \<open>\<^verbatim>\<open>pd.to_numeric(..., errors="coerce")\<close> and \<^verbatim>\<open>pd.to_datetime(..., errors="coerce")\<close> on
  one cell: what does not convert becomes \<^verbatim>\<open>NaN\<close>, \<^verbatim>\<open>NaT\<close>.\<close>

definition to_numeric :: "env \<Rightarrow> num_cell \<Rightarrow> rat option" where
  "to_numeric e c = (case c of NNull \<Rightarrow> None | NNum x \<Rightarrow> Some x | NStr s \<Rightarrow> parse_num e s)"

definition to_datetime :: "(string \<Rightarrow> timestamp option) \<Rightarrow> date_cell \<Rightarrow> timestamp option" where
  "to_datetime parse c = (case c of DNull \<Rightarrow> None | DTime t \<Rightarrow> Some t | DStr s \<Rightarrow> parse s)"

subsection \<open>The record normalisers\<close>

text \<open>\<^verbatim>\<open>rows_to_df\<close> of \<^verbatim>\<open>analysis.py\<close>: amounts with \<^verbatim>\<open>fillna(0)\<close>, categories with
  \<^verbatim>\<open>fillna("")\<close> before \<^verbatim>\<open>.str.lower().str.strip()\<close>. The argument \<open>None\<close> is \<^verbatim>\<open>rows is None\<close>.\<close>

definition rows_to_df :: "env \<Rightarrow> raw_row list option \<Rightarrow> (rat, string) row list" where
  "rows_to_df e rows =
     (case rows of
        None \<Rightarrow> []
      | Some rs \<Rightarrow>
          if length rs = 0 then []
          else map (\<lambda>(i, a, c, d).
                 \<lparr>row_id = i,
                  amount = (case to_numeric e a of None \<Rightarrow> 0 | Some x \<Rightarrow> x),
                  category = strip (lower (case c of None \<Rightarrow> '''' | Some s \<Rightarrow> s)),
                  date = to_datetime (parse_date e) d\<rparr>) rs)"

text \<open>\<^verbatim>\<open>df_from_rows\<close> of \<^verbatim>\<open>app.py\<close>: the same conversions with no \<^verbatim>\<open>fillna\<close>; a missing
  category stays missing under \<^verbatim>\<open>.str.lower().str.strip()\<close>.\<close>

definition df_from_rows :: "env \<Rightarrow> raw_row list option \<Rightarrow> (rat option, string option) row list" where
  "df_from_rows e rows =
     (case rows of
        None \<Rightarrow> []
      | Some rs \<Rightarrow>
          if rs = [] then []
          else map (\<lambda>(i, a, c, d).
                 \<lparr>row_id = i,
                  amount = to_numeric e a,
                  category = map_option (\<lambda>s. strip (lower s)) c,
                  date = to_datetime (parse_date_mixed e) d\<rparr>) rs)"

subsection \<open>The spending analyser (\<^verbatim>\<open>analysis.py\<close>)\<close>

datatype py_error = IndexError

record analysis_result =
  suggestion :: string
  top_category :: "string option"
  percent_of_total :: rat
  total_spent :: rat
  count :: nat
  image_path :: string

definition load_awareness_filename :: "env \<Rightarrow> string \<Rightarrow> string" where
  "load_awareness_filename e cat =
     (let mapping = [(''food'', ''food.png''), (''shopping'', ''shopping.png''),
                     (''travel'', ''travel.png''), (''bills'', ''bills.png'')];
          fname = (case map_of mapping (lower cat) of Some f \<Rightarrow> f | None \<Rightarrow> ''default.png'');
          path = path_join (awareness_dir e) fname
      in if path_exists e path then path else path_join (awareness_dir e) ''default.png'')"

text \<open>\<^verbatim>\<open>df.groupby("category")["amount"].sum()\<close>: one entry for each category, the keys in
  ascending order, with the sum of the amounts of its rows.\<close>

definition groupby_sum :: "(rat, string) row list \<Rightarrow> (string \<times> rat) list" where
  "groupby_sum df =
     map (\<lambda>k. (k, sum_list (map amount (filter (\<lambda>r. category r = k) df))))
         (sort (remdups (map category df)))"

text \<open>\<^verbatim>\<open>.sort_values(ascending=False)\<close>: by sum, the largest first. Among equal sums the model
  keeps the order of the keys; pandas leaves that order to its sorting routine, and nothing
  below depends on it.\<close>

definition sort_values_desc :: "(string \<times> rat) list \<Rightarrow> (string \<times> rat) list" where
  "sort_values_desc xs = sort_key (\<lambda>p. - snd p) xs"

text \<open>The three severity lines; the marks in front are the UTF-8 bytes of the symbols in the
  source.\<close>

definition alarm_line :: "string \<Rightarrow> rat \<Rightarrow> string" where
  "alarm_line top_cat percent =
     [CHR 0xF0, CHR 0x9F, CHR 0x9A, CHR 0xA8] @ '' You spent '' @ format_1f percent
     @ ''% on **'' @ title top_cat @ ''**.''"

definition warning_line :: "string \<Rightarrow> rat \<Rightarrow> string" where
  "warning_line top_cat percent =
     [CHR 0xE2, CHR 0x9A, CHR 0xA0, CHR 0xEF, CHR 0xB8, CHR 0x8F] @ '' '' @ title top_cat
     @ '' makes up '' @ format_1f percent @ ''% of your spending.''"

definition balanced_line :: string where
  "balanced_line = [CHR 0xE2, CHR 0x9C, CHR 0x85] @ '' Your spending is well balanced.''"

definition tip_line :: "string \<Rightarrow> string" where
  "tip_line top_cat =
     (let tips = [(''food'', ''Try reducing takeout and cook at home more often.''),
                  (''shopping'', ''Use a wishlist and buy only after 48 hours.''),
                  (''travel'', ''Look for discount deals or plan trips off-season.''),
                  (''bills'', ''Review subscriptions and remove unused services.'')]
      in [CHR 0xF0, CHR 0x9F, CHR 0x92, CHR 0xA1] @ '' Tip: ''
         @ (case map_of tips top_cat of Some t \<Rightarrow> t | None \<Rightarrow> ''Track recurring expenses.''))"

text \<open>\<^verbatim>\<open>analyze_spending(rows, timeframe)\<close>. \<^verbatim>\<open>cat_totals.index[0]\<close> raises \<^verbatim>\<open>IndexError\<close> on an
  empty series.\<close>

definition analyze_spending :: "env \<Rightarrow> raw_row list option \<Rightarrow> string \<Rightarrow> py_error + analysis_result" where
  "analyze_spending e rows timeframe =
     (let df = rows_to_df e rows;
          result = \<lparr>suggestion = ''No expenses yet.'', top_category = None,
                    percent_of_total = 0, total_spent = 0, count = 0,
                    image_path = path_join (awareness_dir e) ''default.png''\<rparr>
      in if df = [] then Inr result
         else
           let total = sum_list (map amount df);
               result = result\<lparr>total_spent := total, count := length df\<rparr>
           in if total \<le> 0
              then Inr (result\<lparr>suggestion := ''No expenses added in this timeframe.''\<rparr>)
              else
                (case sort_values_desc (groupby_sum df) of
                   [] \<Rightarrow> Inl IndexError
                 | (top_cat, top_amt) # _ \<Rightarrow>
                     let percent = (top_amt / total) * 100;
                         result = result\<lparr>top_category := Some top_cat,
                                          percent_of_total := percent,
                                          image_path := load_awareness_filename e top_cat\<rparr>;
                         lines = [if 40 \<le> percent then alarm_line top_cat percent
                                  else if 25 \<le> percent then warning_line top_cat percent
                                  else balanced_line]
                                 @ [tip_line top_cat]
                     in Inr (result\<lparr>suggestion := join_lines lines\<rparr>)))"

subsection \<open>The quick-add parser (\<^verbatim>\<open>analysis.py\<close>)\<close>

text \<open>The value of a string of decimal digits.\<close>

definition digit_value :: "char \<Rightarrow> nat" where
  "digit_value c =
     (case map_of (zip ''0123456789'' [0, 1, 2, 3, 4, 5, 6, 7, 8, 9]) c of
        Some v \<Rightarrow> v | None \<Rightarrow> 0)"

definition nat_of_digits :: "string \<Rightarrow> nat" where
  "nat_of_digits s = foldl (\<lambda>n c. 10 * n + digit_value c) 0 s"

text \<open>
  \<^verbatim>\<open>re.search(r"(\d+(?:\.\d+)?)", text)\<close>: the match starts at the first digit of the text and
  takes all the digits that follow; the optional group takes a point and the digits after
  it when at least one digit follows the point. \<open>match_number\<close> is the match at a position
  that holds a digit, \<open>search_number\<close> the search; \<open>None\<close> is no match.
\<close>

definition match_number :: "string \<Rightarrow> string" where
  "match_number s =
     (let ip = takeWhile is_digit s; rest = dropWhile is_digit s
      in case rest of
           d # f # _ \<Rightarrow>
             if d = CHR ''.'' \<and> is_digit f then ip @ [d] @ takeWhile is_digit (tl rest) else ip
         | _ \<Rightarrow> ip)"

fun search_number :: "string \<Rightarrow> string option" where
  "search_number [] = None"
| "search_number (c # cs) =
     (if is_digit c then Some (match_number (c # cs)) else search_number cs)"

text \<open>\<^verbatim>\<open>float(g)\<close> for a matched string \<open>g\<close>: integer part, and fraction when there is one.\<close>

definition float_of_match :: "string \<Rightarrow> rat" where
  "float_of_match g =
     (let ip = takeWhile is_digit g; fp = drop (length ip + 1) g
      in of_nat (nat_of_digits ip) + of_nat (nat_of_digits fp) / 10 ^ length fp)"

text \<open>
  \<^verbatim>\<open>re.search(r"(\d{4}-\d{2}-\d{2})", text)\<close>: the first place where ten characters have the
  shape of a date.
\<close>

definition is_dash :: "char \<Rightarrow> bool" where
  "is_dash c = (c = CHR ''-'')"

definition date_shape :: "string \<Rightarrow> bool" where
  "date_shape s =
     list_all2 (\<lambda>p c. p c)
       [is_digit, is_digit, is_digit, is_digit, is_dash, is_digit, is_digit, is_dash,
        is_digit, is_digit] s"

fun search_date :: "string \<Rightarrow> string option" where
  "search_date [] = None"
| "search_date (c # cs) =
     (if date_shape (take 10 (c # cs)) then Some (take 10 (c # cs)) else search_date cs)"

text \<open>
  \<^verbatim>\<open>datetime.fromisoformat(g)\<close> on a string of that shape: midnight of the day, or \<open>None\<close> for
  the \<^verbatim>\<open>ValueError\<close> raised when year, month and day are not a calendar date (the source
  catches it). Strings of another shape are never passed to it by the code.
\<close>

definition fromisoformat :: "string \<Rightarrow> timestamp option" where
  "fromisoformat g =
     (let y = int (nat_of_digits (take 4 g));
          m = nat_of_digits (take 2 (drop 5 g));
          d = nat_of_digits (take 2 (drop 8 g))
      in if date_shape g \<and> 1 \<le> y \<and> 1 \<le> m \<and> m \<le> 12 \<and> 1 \<le> d \<and> d \<le> days_in_month y m
         then Some \<lparr>year = y, month = m, day = d, tod = 0\<rparr>
         else None)"

definition categories :: "string list" where
  "categories = [''food'', ''shopping'', ''travel'', ''bills'']"

text \<open>
  \<^verbatim>\<open>parse_nl_expense(text)\<close>, with the clock as \<open>now\<close>. \<open>sublist c text\<close> is \<^verbatim>\<open>c in text\<close>, and
  \<open>find\<close> is the loop over the categories that stops at the first hit.
\<close>

definition parse_nl_expense :: "timestamp \<Rightarrow> string \<Rightarrow> (rat \<times> string \<times> timestamp) option" where
  "parse_nl_expense now text0 =
     (if text0 = [] \<or> strip text0 = [] then None
      else
        let text = strip (lower text0)
        in case search_number text of
             None \<Rightarrow> None
           | Some g \<Rightarrow>
               let amount = float_of_match g
               in case find (\<lambda>c. sublist c text) categories of
                    None \<Rightarrow> None
                  | Some cat \<Rightarrow>
                      let dt =
                        (if sublist ''today'' text then now
                         else if sublist ''yesterday'' text then sub_one_day now
                         else
                           (case search_date text of
                              Some dm \<Rightarrow>
                                (case fromisoformat dm of Some d \<Rightarrow> d | None \<Rightarrow> now)
                            | None \<Rightarrow> now))
                      in Some (amount, cat, dt))"

subsection \<open>The timeframe windows as the specification words them\<close>

definition midnight :: "timestamp \<Rightarrow> timestamp" where
  "midnight t = t\<lparr>tod := 0\<rparr>"

text \<open>"First day of current month (inclusive) through now."\<close>

definition spec_this_month :: "timestamp \<Rightarrow> timestamp \<Rightarrow> bool" where
  "spec_this_month now d = (ts_le (midnight (replace_day1 now)) d \<and> ts_le d now)"

text \<open>"First through last calendar day of the previous month, inclusive both ends": the
  calendar day of the row lies between the two days.\<close>

definition spec_last_month :: "timestamp \<Rightarrow> timestamp \<Rightarrow> bool" where
  "spec_last_month now d =
     (let prev = sub_months now 1
      in ts_le (midnight (replace_day1 prev)) d
         \<and> ts_le (midnight d) (midnight (month_end0 prev)))"

definition spec_filter :: "(timestamp \<Rightarrow> bool) \<Rightarrow> ('a, 'c) row list \<Rightarrow> ('a, 'c) row list" where
  "spec_filter window df =
     filter (\<lambda>r. case date r of None \<Rightarrow> False | Some d \<Rightarrow> window d) df"

text \<open>The calendar month before the one of \<open>now\<close>, as year and month.\<close>

definition prev_month :: "timestamp \<Rightarrow> int \<times> nat" where
  "prev_month now =
     (if month now = 1 then (year now - 1, 12) else (year now, month now - 1))"

definition bounded_timeframes :: "string set" where
  "bounded_timeframes = {''This Month'', ''Last Month'', ''Last 3 Months'', ''This Year''}"

subsection \<open>Auxiliary notions for the analyser and the parser\<close>

text \<open>The number of rows handed to the analyser, and the result it starts from.\<close>

definition row_count :: "raw_row list option \<Rightarrow> nat" where
  "row_count rows = (case rows of None \<Rightarrow> 0 | Some rs \<Rightarrow> length rs)"

definition default_result :: "env \<Rightarrow> analysis_result" where
  "default_result e =
     \<lparr>suggestion = ''No expenses yet.'', top_category = None,
      percent_of_total = 0, total_spent = 0, count = 0,
      image_path = path_join (awareness_dir e) ''default.png''\<rparr>"

text \<open>A text is blank when it is empty or whitespace only.\<close>

definition blank :: "string \<Rightarrow> bool" where
  "blank s = list_all is_space s"

text \<open>The decimal-number pattern: digits, then optionally one point and more digits.\<close>

definition decimal_shape :: "string \<Rightarrow> bool" where
  "decimal_shape g =
     (let ip = takeWhile is_digit g; rest = dropWhile is_digit g
      in ip \<noteq> [] \<and>
         (rest = [] \<or> (hd rest = CHR ''.'' \<and> tl rest \<noteq> [] \<and> list_all is_digit (tl rest))))"

text \<open>The text contains a substring of the given shape.\<close>

definition contains_match :: "(string \<Rightarrow> bool) \<Rightarrow> string \<Rightarrow> bool" where
  "contains_match shape t = list_ex shape (sublists t)"

text \<open>The date that \<^verbatim>\<open>parse_nl_expense\<close> derives from the lower-cased, trimmed text.\<close>

definition date_of_text :: "timestamp \<Rightarrow> string \<Rightarrow> timestamp" where
  "date_of_text now t =
     (if sublist ''today'' t then now
      else if sublist ''yesterday'' t then sub_one_day now
      else (case search_date t of
              Some dm \<Rightarrow> (case fromisoformat dm of Some d \<Rightarrow> d | None \<Rightarrow> now)
            | None \<Rightarrow> now))"

subsection \<open>Auxiliary notions for the normalisers\<close>






subsection \<open>Sample data\<close>

definition ts :: "int \<Rightarrow> nat \<Rightarrow> nat \<Rightarrow> nat \<Rightarrow> timestamp" where
  "ts y m d s = \<lparr>year = y, month = m, day = d, tod = s\<rparr>"

definition ex_row :: "int \<Rightarrow> timestamp option \<Rightarrow> (rat option, string option) row" where
  "ex_row i d = \<lparr>row_id = i, amount = Some 10, category = Some ''food'', date = d\<rparr>"

text \<open>Noon of 15 March 2024, the time of day in seconds.\<close>

definition ex_now :: timestamp where
  "ex_now = ts 2024 3 15 43200"

definition ex_table :: "(rat option, string option) row list" where
  "ex_table = [ex_row 1 (Some (ts 2024 3 2 0)), ex_row 2 (Some (ts 2024 2 29 0)),
               ex_row 3 (Some (ts 2024 2 10 0)), ex_row 4 None]"

text \<open>
  A sample environment: a string of digits reads as that number and nothing else as a
  number, a date string reads as \<open>fromisoformat\<close> reads it, and every file exists.
\<close>

definition ex_parse_num :: "string \<Rightarrow> rat option" where
  "ex_parse_num s =
     (if s \<noteq> [] \<and> list_all is_digit s then Some (of_nat (nat_of_digits s)) else None)"

definition ex_env :: env where
  "ex_env = \<lparr>parse_num = ex_parse_num, parse_date = fromisoformat,
             parse_date_mixed = fromisoformat, path_exists = (\<lambda>p. True),
             awareness_dir = ''/app/awareness''\<rparr>"

definition raw :: "int \<Rightarrow> rat \<Rightarrow> string \<Rightarrow> raw_row" where
  "raw i a c = (i, NNum a, Some c, DTime (ts 2024 3 10 0))"

definition alarm_rows :: "raw_row list" where
  "alarm_rows = [raw 1 60 ''food'', raw 2 40 ''shopping'']"



text \<open>Two rows whose amounts do not convert, the second without a category.\<close>

definition nonpos_rows :: "raw_row list" where
  "nonpos_rows = [(1, NStr ''abc'', Some '' Food'', DNull), (2, NNull, None, DNull)]"


section \<open>Properties\<close>

subsection \<open>Timeframe filter\<close>

lemmas ex_defs = ex_now_def ex_row_def ts_def

lemmas ts_ops = ts_le_def replace_day1_def replace_month1_day1_def sub_months_def
  month_end0_def days_in_month_def is_leap_def midnight_def

lemma date_ge_None: "date r = None \<Longrightarrow> \<not> date_ge s r"
  by (simp add: date_ge_def)

lemma this_month_kept:
  "r \<in> set (filter_by_timeframe now df ''This Month'')
     \<longleftrightarrow> r \<in> set df \<and> date_ge (replace_day1 now) r"
  by (auto simp: filter_by_timeframe_def Let_def)

lemma last_month_kept:
  "r \<in> set (filter_by_timeframe now df ''Last Month'') \<longleftrightarrow>
     r \<in> set df \<and> date_ge (replace_day1 (sub_months now 1)) r
               \<and> date_le (month_end0 (replace_day1 (sub_months now 1))) r"
  by (auto simp: filter_by_timeframe_def Let_def)

text \<open>One month back is the previous calendar month, across the turn of the year too.\<close>

lemma sub_months_1:
  assumes "1 \<le> month now" "month now \<le> 12"
  shows "(year (sub_months now 1), month (sub_months now 1)) = prev_month now"
proof -
  define y where "y = year now"
  define m where "m = int (month now)"
  have m: "1 \<le> m" "m \<le> 12" using assms by (simp_all add: m_def)
  have d: "(y * 12 + (m - 1) - 1) div 12 = (if m = 1 then y - 1 else y)"
    using m by (simp split: if_splits) presburger
  have r: "(y * 12 + (m - 1) - 1) mod 12 = (if m = 1 then 11 else m - 2)"
    using m by (simp split: if_splits) presburger
  have mm: "month now = nat m" by (simp add: m_def)
  show ?thesis
    using m d r unfolding sub_months_def prev_month_def Let_def y_def [symmetric] mm
    by (auto simp: nat_eq_iff m_def y_def)
qed

lemma ts_le_same_month:
  "year a = year b \<Longrightarrow> month a = month b \<Longrightarrow> day a < day b \<Longrightarrow> ts_le a b"
  by (simp add: ts_le_def)

lemma ts_le_sandwich:
  assumes "ts_le s d" "ts_le d e" "year s = year e" "month s = month e"
  shows "year d = year s \<and> month d = month s"
  using assms unfolding ts_le_def by (metis less_le_not_le linorder_not_less order.asym)

text \<open>
  Claim C1, as stated, fails. At noon of 15 March 2024 the code starts "This Month" at noon of
  1 March (\<^verbatim>\<open>now.replace(day=1)\<close> keeps the time of day) and sets no upper bound: the row of
  1 March 00:00 is dropped and the row of 20 March, later than now, is kept, where the
  stated window keeps exactly the first. "Last Month" runs from noon of 1 February to noon
  of 29 February: the rows of 1 February 00:00 and of 29 February 18:00 are both dropped,
  where the stated window keeps both.
\<close>

theorem filter_month_windows_as_stated_fail:
  "filter_by_timeframe ex_now
       [ex_row 1 (Some (ts 2024 3 1 0)), ex_row 2 (Some (ts 2024 3 20 0))] ''This Month''
     = [ex_row 2 (Some (ts 2024 3 20 0))]
   \<and> spec_filter (spec_this_month ex_now)
       [ex_row 1 (Some (ts 2024 3 1 0)), ex_row 2 (Some (ts 2024 3 20 0))]
     = [ex_row 1 (Some (ts 2024 3 1 0))]
   \<and> filter_by_timeframe ex_now
       [ex_row 3 (Some (ts 2024 2 1 0)), ex_row 4 (Some (ts 2024 2 29 64800))] ''Last Month''
     = []
   \<and> spec_filter (spec_last_month ex_now)
       [ex_row 3 (Some (ts 2024 2 1 0)), ex_row 4 (Some (ts 2024 2 29 64800))]
     = [ex_row 3 (Some (ts 2024 2 1 0)), ex_row 4 (Some (ts 2024 2 29 64800))]"
  by (simp add: filter_by_timeframe_def spec_filter_def spec_this_month_def spec_last_month_def
      date_ge_def date_le_def ex_defs ts_ops Let_def)

text \<open>
  Claim C1, amended. "This Month" keeps only rows of the table with a valid date on or after
  the first day of the current month, and keeps every row dated on or after the second day
  of the current month, with no upper bound at now. "Last Month" keeps only rows of the table
  dated within the previous calendar month, and keeps every row dated from the second day
  of that month up to the day before its last. What happens to the rows dated on the
  boundary days themselves is not part of the statement.
\<close>

theorem filter_month_windows:
  assumes "1 \<le> month now" "month now \<le> 12"
  shows "(\<forall>r \<in> set (filter_by_timeframe now df ''This Month'').
            r \<in> set df \<and> (\<exists>d. date r = Some d \<and> ts_le (midnight (replace_day1 now)) d))
       \<and> (\<forall>r \<in> set df. \<forall>d. date r = Some d \<and> ts_le (now\<lparr>day := 2, tod := 0\<rparr>) d
            \<longrightarrow> r \<in> set (filter_by_timeframe now df ''This Month''))
       \<and> (\<forall>r \<in> set (filter_by_timeframe now df ''Last Month'').
            r \<in> set df \<and> (\<exists>d. date r = Some d \<and> (year d, month d) = prev_month now))
       \<and> (\<forall>r \<in> set df. \<forall>d. date r = Some d \<and> (year d, month d) = prev_month now
              \<and> 2 \<le> day d \<and> day d < days_in_month (year d) (month d)
            \<longrightarrow> r \<in> set (filter_by_timeframe now df ''Last Month''))"
proof -
  have p: "(year (sub_months now 1), month (sub_months now 1)) = prev_month now"
    using assms by (rule sub_months_1)
  have a: "\<forall>r \<in> set (filter_by_timeframe now df ''This Month'').
            r \<in> set df \<and> (\<exists>d. date r = Some d \<and> ts_le (midnight (replace_day1 now)) d)"
    by (auto simp: this_month_kept date_ge_def ts_le_def midnight_def replace_day1_def
        split: option.splits)
  have b: "\<forall>r \<in> set df. \<forall>d. date r = Some d \<and> ts_le (now\<lparr>day := 2, tod := 0\<rparr>) d
            \<longrightarrow> r \<in> set (filter_by_timeframe now df ''This Month'')"
    by (auto simp: this_month_kept date_ge_def ts_le_def replace_day1_def)
  have c: "\<forall>r \<in> set (filter_by_timeframe now df ''Last Month'').
            r \<in> set df \<and> (\<exists>d. date r = Some d \<and> (year d, month d) = prev_month now)"
  proof (intro ballI)
    fix r assume r: "r \<in> set (filter_by_timeframe now df ''Last Month'')"
    then obtain d where d: "date r = Some d"
      "ts_le (replace_day1 (sub_months now 1)) d"
      "ts_le d (month_end0 (replace_day1 (sub_months now 1)))"
      by (auto simp: last_month_kept date_ge_def date_le_def split: option.splits)
    have "year d = year (replace_day1 (sub_months now 1))
        \<and> month d = month (replace_day1 (sub_months now 1))"
      by (rule ts_le_sandwich [OF d(2) d(3)]) (simp_all add: month_end0_def)
    with p d(1) r
    show "r \<in> set df \<and> (\<exists>d. date r = Some d \<and> (year d, month d) = prev_month now)"
      by (simp add: last_month_kept replace_day1_def)
  qed
  have d: "\<forall>r \<in> set df. \<forall>d. date r = Some d \<and> (year d, month d) = prev_month now
              \<and> 2 \<le> day d \<and> day d < days_in_month (year d) (month d)
            \<longrightarrow> r \<in> set (filter_by_timeframe now df ''Last Month'')"
  proof (intro ballI allI impI)
    fix r d
    assume r: "r \<in> set df"
      and h: "date r = Some d \<and> (year d, month d) = prev_month now
              \<and> 2 \<le> day d \<and> day d < days_in_month (year d) (month d)"
    from h p have ym: "year (sub_months now 1) = year d" "month (sub_months now 1) = month d"
      by (metis prod.inject)+
    have "ts_le (replace_day1 (sub_months now 1)) d"
      using h by (intro ts_le_same_month) (simp_all add: replace_day1_def ym del: One_nat_def)
    moreover have "ts_le d (month_end0 (replace_day1 (sub_months now 1)))"
      using h by (intro ts_le_same_month)
        (simp_all add: replace_day1_def month_end0_def ym del: One_nat_def)
    ultimately show "r \<in> set (filter_by_timeframe now df ''Last Month'')"
      using r h by (simp add: last_month_kept date_ge_def date_le_def)
  qed
  from a b c d show ?thesis by blast
qed

theorem filter_month_windows_witness:
  "1 \<le> month ex_now \<and> month ex_now \<le> 12
   \<and> ex_row 1 (Some (ts 2024 3 2 0)) \<in> set (filter_by_timeframe ex_now ex_table ''This Month'')
   \<and> ex_row 3 (Some (ts 2024 2 10 0)) \<in> set (filter_by_timeframe ex_now ex_table ''Last Month'')
   \<and> ex_row 4 None \<notin> set (filter_by_timeframe ex_now ex_table ''This Month'')
   \<and> ex_row 1 (Some (ts 2024 3 2 0)) \<notin> set (filter_by_timeframe ex_now ex_table ''Last Month'')"
proof -
  have h1: "1 \<le> month ex_now" and h2: "month ex_now \<le> 12"
    by (simp_all add: ex_defs)
  note T = filter_month_windows [OF h1 h2, of ex_table]
  have m1: "ex_row 1 (Some (ts 2024 3 2 0)) \<in> set ex_table"
    and m3: "ex_row 3 (Some (ts 2024 2 10 0)) \<in> set ex_table"
    by (simp_all add: ex_table_def)
  have k1: "date (ex_row 1 (Some (ts 2024 3 2 0))) = Some (ts 2024 3 2 0)
            \<and> ts_le (ex_now\<lparr>day := 2, tod := 0\<rparr>) (ts 2024 3 2 0)"
    by (simp add: ex_defs ts_le_def)
  have k3: "date (ex_row 3 (Some (ts 2024 2 10 0))) = Some (ts 2024 2 10 0)
            \<and> (year (ts 2024 2 10 0), month (ts 2024 2 10 0)) = prev_month ex_now
            \<and> 2 \<le> day (ts 2024 2 10 0)
            \<and> day (ts 2024 2 10 0) < days_in_month (year (ts 2024 2 10 0)) (month (ts 2024 2 10 0))"
    by (simp add: ex_defs prev_month_def days_in_month_def)
  have n4: "\<not> (\<exists>d. date (ex_row 4 None) = Some d)"
    by (simp add: ex_defs)
  have n1: "\<not> (\<exists>d. date (ex_row 1 (Some (ts 2024 3 2 0))) = Some d
                 \<and> (year d, month d) = prev_month ex_now)"
    by (simp add: ex_defs prev_month_def)
  from T m1 k1
  have "ex_row 1 (Some (ts 2024 3 2 0)) \<in> set (filter_by_timeframe ex_now ex_table ''This Month'')"
    by blast
  moreover from T m3 k3
  have "ex_row 3 (Some (ts 2024 2 10 0)) \<in> set (filter_by_timeframe ex_now ex_table ''Last Month'')"
    by blast
  moreover from T n4
  have "ex_row 4 None \<notin> set (filter_by_timeframe ex_now ex_table ''This Month'')"
    by blast
  moreover from T n1
  have "ex_row 1 (Some (ts 2024 3 2 0)) \<notin> set (filter_by_timeframe ex_now ex_table ''Last Month'')"
    by blast
  ultimately show ?thesis using h1 h2 by blast
qed

text \<open>
  Claim C8. Under each bounded timeframe name every row whose date is the invalid marker is
  absent from the output of the filter; under "All Time" the filter returns the table as it
  is, such rows included.
\<close>

theorem filter_excludes_invalid_dates:
  "(timeframe \<in> bounded_timeframes \<longrightarrow>
      (\<forall>r \<in> set df. date r = None \<longrightarrow> r \<notin> set (filter_by_timeframe now df timeframe)))
   \<and> filter_by_timeframe now df ''All Time'' = df"
  by (auto simp: filter_by_timeframe_def bounded_timeframes_def Let_def date_ge_None)

theorem filter_excludes_invalid_dates_witness:
  "''This Year'' \<in> bounded_timeframes
   \<and> ex_row 4 None \<in> set ex_table
   \<and> date (ex_row 4 None) = None
   \<and> ex_row 4 None \<notin> set (filter_by_timeframe ex_now ex_table ''This Year'')
   \<and> filter_by_timeframe ex_now ex_table ''This Year''
       = [ex_row 1 (Some (ts 2024 3 2 0)), ex_row 2 (Some (ts 2024 2 29 0)),
          ex_row 3 (Some (ts 2024 2 10 0))]
   \<and> filter_by_timeframe ex_now ex_table ''All Time'' = ex_table"
proof -
  have b: "''This Year'' \<in> bounded_timeframes" by (simp add: bounded_timeframes_def)
  have m: "ex_row 4 None \<in> set ex_table" by (simp add: ex_table_def)
  have n: "date (ex_row 4 None) = None" by (simp add: ex_row_def)
  have e: "filter_by_timeframe ex_now ex_table ''This Year''
       = [ex_row 1 (Some (ts 2024 3 2 0)), ex_row 2 (Some (ts 2024 2 29 0)),
          ex_row 3 (Some (ts 2024 2 10 0))]"
    by (simp add: filter_by_timeframe_def date_ge_def ex_table_def ex_defs ts_ops)
  from filter_excludes_invalid_dates [of "''This Year''" ex_table ex_now] b m n e
  show ?thesis by blast
qed

subsection \<open>Spending analyser\<close>

lemmas str_defs = strip_def lower_def lower_char_def upper_char_def is_space_def is_upper_def
  is_lower_def is_digit_def upper_letters_def lower_letters_def title_def

lemmas norm_defs = rows_to_df_def df_from_rows_def to_numeric_def to_datetime_def raw_def
  ex_env_def ex_parse_num_def

lemma length_rows_to_df: "length (rows_to_df e rows) = row_count rows"
  by (simp add: rows_to_df_def row_count_def split: option.splits)

text \<open>A table with a row has a category, so \<^verbatim>\<open>cat_totals.index[0]\<close> does not raise.\<close>

lemma cat_totals_nonempty: "df \<noteq> [] \<Longrightarrow> sort_values_desc (groupby_sum df) \<noteq> []"
proof -
  assume "df \<noteq> []"
  then have "set (map category df) \<noteq> {}" by simp
  then have "set (sort (remdups (map category df))) \<noteq> {}" by simp
  then have "sort (remdups (map category df)) \<noteq> []" by (metis set_empty)
  then have "groupby_sum df \<noteq> []" by (simp add: groupby_sum_def)
  then have "length (sort_values_desc (groupby_sum df)) \<noteq> 0"
    by (simp add: sort_values_desc_def)
  then show ?thesis by (metis list.size(3))
qed

text \<open>The three ways through \<^verbatim>\<open>analyze_spending\<close>.\<close>

lemma analyze_empty:
  "rows_to_df e rows = [] \<Longrightarrow> analyze_spending e rows tf = Inr (default_result e)"
  by (simp add: analyze_spending_def default_result_def)

lemma analyze_nonpos:
  "rows_to_df e rows \<noteq> [] \<Longrightarrow> sum_list (map amount (rows_to_df e rows)) \<le> 0 \<Longrightarrow>
   analyze_spending e rows tf =
     Inr ((default_result e)\<lparr>total_spent := sum_list (map amount (rows_to_df e rows)),
                              count := length (rows_to_df e rows),
                              suggestion := ''No expenses added in this timeframe.''\<rparr>)"
  by (simp add: analyze_spending_def default_result_def Let_def)

lemma analyze_pos:
  assumes "0 < sum_list (map amount (rows_to_df e rows))"
    and "sort_values_desc (groupby_sum (rows_to_df e rows)) = (top_cat, top_amt) # rest"
  shows "analyze_spending e rows tf =
     Inr \<lparr>suggestion =
            (let p = top_amt / sum_list (map amount (rows_to_df e rows)) * 100
             in (if 40 \<le> p then alarm_line top_cat p
                else if 25 \<le> p then warning_line top_cat p
                else balanced_line) @ [CHR 0x0A] @ tip_line top_cat),
          top_category = Some top_cat,
          percent_of_total = top_amt / sum_list (map amount (rows_to_df e rows)) * 100,
          total_spent = sum_list (map amount (rows_to_df e rows)),
          count = length (rows_to_df e rows),
          image_path = load_awareness_filename e top_cat\<rparr>"
proof -
  have ne: "rows_to_df e rows \<noteq> []" using assms(1) by auto
  have np: "\<not> sum_list (map amount (rows_to_df e rows)) \<le> 0" using assms(1) by simp
  show ?thesis
    unfolding analyze_spending_def Let_def using ne np assms(2) by simp
qed

text \<open>The sums of the groups add up to the total of the table.\<close>

lemma sum_groups:
  fixes df :: "(rat, string) row list"
  assumes "finite K" "category ` set df \<subseteq> K"
  shows "(\<Sum>k\<in>K. sum_list (map amount (filter (\<lambda>r. category r = k) df)))
         = sum_list (map amount df)"
  using assms(2)
proof (induction df)
  case Nil
  then show ?case by simp
next
  case (Cons r df)
  then have in_K: "category r \<in> K" and sub: "category ` set df \<subseteq> K" by auto
  have "(\<Sum>k\<in>K. sum_list (map amount (filter (\<lambda>x. category x = k) (r # df))))
      = (\<Sum>k\<in>K. (if category r = k then amount r else 0)
                 + sum_list (map amount (filter (\<lambda>x. category x = k) df)))"
    by (intro sum.cong) auto
  also have "\<dots> = (\<Sum>k\<in>K. (if category r = k then amount r else 0))
                 + (\<Sum>k\<in>K. sum_list (map amount (filter (\<lambda>x. category x = k) df)))"
    by (simp add: sum.distrib)
  also have "(\<Sum>k\<in>K. (if category r = k then amount r else 0)) = amount r"
    using assms(1) in_K by simp
  finally show ?case using Cons.IH [OF sub] by simp
qed

lemma sum_groupby_sum:
  "sum_list (map snd (groupby_sum df)) = sum_list (map amount df)"
proof -
  let ?keys = "sort (remdups (map category df))"
  have d: "distinct ?keys" by simp
  have "sum_list (map snd (groupby_sum df))
      = sum_list (map (\<lambda>k. sum_list (map amount (filter (\<lambda>r. category r = k) df))) ?keys)"
    by (simp add: groupby_sum_def comp_def)
  also have "\<dots> = (\<Sum>k\<in>set ?keys. sum_list (map amount (filter (\<lambda>r. category r = k) df)))"
    using d by (rule sum_list_distinct_conv_sum_set)
  also have "\<dots> = sum_list (map amount df)"
    by (rule sum_groups) auto
  finally show ?thesis .
qed

text \<open>The sample tables, evaluated.\<close>

lemma g_alarm:
  "groupby_sum (rows_to_df ex_env (Some alarm_rows)) = [(''food'', 60), (''shopping'', 40)]"
  by (simp add: alarm_rows_def norm_defs str_defs groupby_sum_def)

lemma s_alarm:
  "sort_values_desc (groupby_sum (rows_to_df ex_env (Some alarm_rows)))
     = (''food'', 60) # [(''shopping'', 40)]"
  unfolding g_alarm by (simp add: sort_values_desc_def)



lemma t_alarm: "sum_list (map amount (rows_to_df ex_env (Some alarm_rows))) = 100"
  by (simp add: alarm_rows_def norm_defs)



lemma t_nonpos: "sum_list (map amount (rows_to_df ex_env (Some nonpos_rows))) = 0"
  by (simp add: nonpos_rows_def norm_defs is_digit_def)

text \<open>
  Claim C2, as stated, fails. On the table with the rows (60, food) and (40, shopping) the
  category sums are food 60 and shopping 40, the top category is food and the severity line
  is the alarm line, but \<^verbatim>\<open>percent_of_total\<close> is the share of the top category, 60, not 40.
\<close>

theorem analyze_food60_percent_is_not_40:
  "groupby_sum (rows_to_df ex_env (Some alarm_rows)) = [(''food'', 60), (''shopping'', 40)]
   \<and> analyze_spending ex_env (Some alarm_rows) ''This Month''
     = Inr \<lparr>suggestion = alarm_line ''food'' 60 @ [CHR 0x0A] @ tip_line ''food'',
            top_category = Some ''food'', percent_of_total = 60, total_spent = 100,
            count = 2, image_path = ''/app/awareness/food.png''\<rparr>
   \<and> percent_of_total (projr (analyze_spending ex_env (Some alarm_rows) ''This Month'')) \<noteq> 40"
proof -
  have p: "0 < sum_list (map amount (rows_to_df ex_env (Some alarm_rows)))"
    by (simp add: t_alarm)
  have l: "length (rows_to_df ex_env (Some alarm_rows)) = 2"
    by (simp add: length_rows_to_df row_count_def alarm_rows_def)
  have i: "load_awareness_filename ex_env ''food'' = ''/app/awareness/food.png''"
    by (simp add: load_awareness_filename_def ex_env_def path_join_def str_defs)
  show ?thesis
    by (simp add: g_alarm analyze_pos [OF p s_alarm] t_alarm l i)
qed

text \<open>
  Claim C2, amended. On every table whose category sums are food 60 and shopping 40 the
  analyser returns the top category food, \<^verbatim>\<open>percent_of_total\<close> 60, the total 100, and a
  suggestion whose severity line is the alarm line.
\<close>

theorem analyze_food60_shopping40:
  assumes "groupby_sum (rows_to_df e rows) = [(''food'', 60), (''shopping'', 40)]"
  shows "\<exists>r. analyze_spending e rows tf = Inr r
     \<and> top_category r = Some ''food'' \<and> percent_of_total r = 60 \<and> total_spent r = 100
     \<and> suggestion r = alarm_line ''food'' 60 @ [CHR 0x0A] @ tip_line ''food''"
proof -
  have t: "sum_list (map amount (rows_to_df e rows)) = 100"
    using sum_groupby_sum [of "rows_to_df e rows"] assms by simp
  have s: "sort_values_desc (groupby_sum (rows_to_df e rows))
           = (''food'', 60) # [(''shopping'', 40)]"
    by (simp add: assms sort_values_desc_def)
  have p: "0 < sum_list (map amount (rows_to_df e rows))" by (simp add: t)
  show ?thesis
    unfolding analyze_pos [OF p s] by (simp add: t)
qed

theorem analyze_food60_shopping40_witness:
  "groupby_sum (rows_to_df ex_env (Some alarm_rows)) = [(''food'', 60), (''shopping'', 40)]
   \<and> (\<exists>r. analyze_spending ex_env (Some alarm_rows) ''This Month'' = Inr r
     \<and> top_category r = Some ''food'' \<and> percent_of_total r = 60 \<and> total_spent r = 100
     \<and> suggestion r = alarm_line ''food'' 60 @ [CHR 0x0A] @ tip_line ''food'')"
  using analyze_food60_shopping40 [OF g_alarm, of "''This Month''"] g_alarm by simp

text \<open>
  Claim C3. The analyser returns a result for every table. When the row count is 0 or the
  total of the amounts is at most 0, the top category is null and the percentage is 0; on a
  table with rows and a total of at most 0 the suggestion is "No expenses added in this
  timeframe." and the count is the number of rows.
\<close>

theorem analyze_no_spending:
  "\<exists>r. analyze_spending e rows tf = Inr r
     \<and> (row_count rows = 0 \<or> sum_list (map amount (rows_to_df e rows)) \<le> 0
          \<longrightarrow> top_category r = None \<and> percent_of_total r = 0)
     \<and> (row_count rows \<noteq> 0 \<and> sum_list (map amount (rows_to_df e rows)) \<le> 0
          \<longrightarrow> suggestion r = ''No expenses added in this timeframe.''
              \<and> count r = row_count rows)"
proof (cases "rows_to_df e rows = []")
  case True
  then have "row_count rows = 0" by (metis length_rows_to_df list.size(3))
  with True show ?thesis by (simp add: analyze_empty default_result_def)
next
  case ne: False
  then have rc: "row_count rows \<noteq> 0" by (metis length_rows_to_df length_0_conv)
  show ?thesis
  proof (cases "sum_list (map amount (rows_to_df e rows)) \<le> 0")
    case True
    with ne rc show ?thesis
      by (simp add: analyze_nonpos default_result_def length_rows_to_df)
  next
    case False
    obtain c a rest where s: "sort_values_desc (groupby_sum (rows_to_df e rows)) = (c, a) # rest"
      using cat_totals_nonempty [OF ne] by (metis list.exhaust surj_pair)
    from False have "0 < sum_list (map amount (rows_to_df e rows))" by simp
    from analyze_pos [OF this s] False rc show ?thesis by simp
  qed
qed

theorem analyze_no_spending_witness:
  "row_count (Some nonpos_rows) \<noteq> 0
   \<and> sum_list (map amount (rows_to_df ex_env (Some nonpos_rows))) \<le> 0
   \<and> (\<exists>r. analyze_spending ex_env (Some nonpos_rows) ''This Month'' = Inr r
        \<and> top_category r = None \<and> percent_of_total r = 0
        \<and> suggestion r = ''No expenses added in this timeframe.'' \<and> count r = 2)
   \<and> row_count (Some []) = 0
   \<and> (\<exists>r. analyze_spending ex_env (Some []) ''This Month'' = Inr r
        \<and> top_category r = None \<and> percent_of_total r = 0)"
proof -
  have a: "row_count (Some nonpos_rows) \<noteq> 0" and a2: "row_count (Some nonpos_rows) = 2"
    by (simp_all add: row_count_def nonpos_rows_def)
  have b: "sum_list (map amount (rows_to_df ex_env (Some nonpos_rows))) \<le> 0"
    by (simp add: t_nonpos)
  have c: "row_count (Some []) = 0" by (simp add: row_count_def)
  from analyze_no_spending [of ex_env "Some nonpos_rows" "''This Month''"] a b a2
  have "\<exists>r. analyze_spending ex_env (Some nonpos_rows) ''This Month'' = Inr r
        \<and> top_category r = None \<and> percent_of_total r = 0
        \<and> suggestion r = ''No expenses added in this timeframe.'' \<and> count r = 2"
    by auto
  moreover from analyze_no_spending [of ex_env "Some []" "''This Month''"] c
  have "\<exists>r. analyze_spending ex_env (Some []) ''This Month'' = Inr r
        \<and> top_category r = None \<and> percent_of_total r = 0"
    by auto
  ultimately show ?thesis using a b c by blast
qed



text \<open>
  Claim C9. The result of the analyser does not depend on its timeframe argument: for any
  two timeframe strings the two calls on the same rows are equal.
\<close>

theorem analyze_ignores_timeframe:
  "analyze_spending e rows t1 = analyze_spending e rows t2"
  by (simp add: analyze_spending_def)

subsection \<open>Quick-add parser\<close>

lemma contains_match_iff: "contains_match shape t \<longleftrightarrow> (\<exists>g. sublist g t \<and> shape g)"
  by (auto simp: contains_match_def list_ex_iff)

lemma strip_empty_iff: "strip s = [] \<longleftrightarrow> blank s"
proof
  assume "blank s"
  then have "dropWhile is_space s = []" by (auto simp: blank_def list_all_iff dest: set_dropWhileD)
  then show "strip s = []" unfolding strip_def by (simp only: rev.simps dropWhile.simps)
next
  assume e: "strip s = []"
  show "blank s"
  proof (rule ccontr)
    assume "\<not> blank s"
    then have "dropWhile is_space s \<noteq> []" by (auto simp: blank_def list_all_iff)
    then obtain x xs where x: "dropWhile is_space s = x # xs" by (cases "dropWhile is_space s") auto
    then have "\<not> is_space x" by (metis hd_dropWhile list.sel(1) list.distinct(1))
    then have "dropWhile is_space (rev (x # xs)) \<noteq> []"
      by (simp add: dropWhile_append)
    with e x show False by (simp add: strip_def)
  qed
qed

lemma search_number_None: "search_number t = None \<longleftrightarrow> (\<forall>c \<in> set t. \<not> is_digit c)"
  by (induction t) auto

lemma decimal_shape_hd: "decimal_shape g \<Longrightarrow> g \<noteq> [] \<and> is_digit (hd g)"
  by (cases g) (auto simp: decimal_shape_def Let_def split: if_splits)

lemma contains_decimal_iff: "contains_match decimal_shape t \<longleftrightarrow> (\<exists>c \<in> set t. is_digit c)"
proof
  assume "contains_match decimal_shape t"
  then obtain g where g: "sublist g t" "decimal_shape g" by (auto simp: contains_match_iff)
  then have "g \<noteq> []" "is_digit (hd g)" using decimal_shape_hd by auto
  moreover have "set g \<subseteq> set t" using g(1) by (auto simp: sublist_def)
  ultimately show "\<exists>c \<in> set t. is_digit c" by (metis hd_in_set subsetD)
next
  assume "\<exists>c \<in> set t. is_digit c"
  then obtain c where c: "c \<in> set t" "is_digit c" by blast
  then obtain u w where "t = u @ [c] @ w" by (metis append_Cons append_Nil split_list)
  then have "sublist [c] t" by (auto simp: sublist_def)
  moreover have "decimal_shape [c]" using c(2) by (simp add: decimal_shape_def)
  ultimately show "contains_match decimal_shape t" by (auto simp: contains_match_iff)
qed

lemma search_number_None_iff:
  "search_number t = None \<longleftrightarrow> \<not> contains_match decimal_shape t"
  by (simp add: search_number_None contains_decimal_iff)

lemma find_category_None:
  "find (\<lambda>c. sublist c t) categories = None \<longleftrightarrow> (\<forall>c \<in> set categories. \<not> sublist c t)"
  by (auto simp: find_None_iff)

lemma find_category_Some:
  "find (\<lambda>c. sublist c t) categories = Some c \<Longrightarrow> c \<in> set categories \<and> sublist c t"
  by (auto simp: find_Some_iff)

lemma parse_None_iff:
  "parse_nl_expense now text = None \<longleftrightarrow>
     blank text \<or> \<not> contains_match decimal_shape (strip (lower text))
     \<or> (\<forall>c \<in> set categories. \<not> sublist c (strip (lower text)))"
proof (cases "blank text")
  case True
  then show ?thesis by (simp add: parse_nl_expense_def strip_empty_iff)
next
  case False
  then have ne: "text \<noteq> []" "strip text \<noteq> []"
    by (auto simp: strip_empty_iff blank_def)
  show ?thesis
    using False ne
    by (auto simp: parse_nl_expense_def Let_def search_number_None_iff [symmetric]
        find_category_None [symmetric] split: option.splits)
qed

lemma parse_Some_category:
  "parse_nl_expense now text = Some (a, c, d) \<Longrightarrow> c \<in> set categories"
  by (auto simp: parse_nl_expense_def Let_def split: option.splits if_splits
      dest: find_category_Some)

text \<open>
  Claim C6. The parser is total: it returns \<open>None\<close>, the explicit failure, and never raises.
  It fails exactly when the text is blank, or the lower-cased, trimmed text contains no
  substring of the decimal-number shape, or it contains none of the four vocabulary words;
  in every other case it returns a triple whose category is one of the four words.
\<close>

theorem parse_fails_exactly_when:
  "(parse_nl_expense now text = None \<longleftrightarrow>
      blank text \<or> \<not> contains_match decimal_shape (strip (lower text))
      \<or> (\<forall>c \<in> set categories. \<not> sublist c (strip (lower text))))
   \<and> (parse_nl_expense now text \<noteq> None \<longrightarrow>
        (\<exists>a c d. parse_nl_expense now text = Some (a, c, d) \<and> c \<in> set categories))"
proof -
  have "\<exists>a c d. parse_nl_expense now text = Some (a, c, d) \<and> c \<in> set categories"
    if "parse_nl_expense now text \<noteq> None"
  proof -
    from that obtain a c d where "parse_nl_expense now text = Some (a, c, d)"
      by (metis not_None_eq surj_pair)
    then show ?thesis using parse_Some_category by blast
  qed
  then show ?thesis using parse_None_iff by blast
qed

lemma float_of_match_nonneg: "0 \<le> float_of_match g"
  by (simp add: float_of_match_def Let_def)

text \<open>
  Claim C10. Whenever the parser succeeds, the amount is not negative: the pattern matches
  digits only, so a minus sign before them is not part of the match.
\<close>

theorem parse_amount_nonneg:
  "parse_nl_expense now text = Some (a, c, d) \<Longrightarrow> 0 \<le> a"
  by (auto simp: parse_nl_expense_def Let_def float_of_match_nonneg
      split: option.splits if_splits)

lemma date_shape_length: "date_shape g \<Longrightarrow> length g = 10"
  unfolding date_shape_def by (drule list_all2_lengthD) simp

lemma search_date_Some:
  "search_date t = Some g \<Longrightarrow>
     \<exists>u w. t = u @ g @ w \<and> date_shape g \<and> (\<forall>i<length u. \<not> date_shape (take 10 (drop i t)))"
proof (induction t)
  case Nil
  then show ?case by simp
next
  case (Cons c cs)
  show ?case
  proof (cases "date_shape (take 10 (c # cs))")
    case True
    with Cons.prems have g: "g = take 10 (c # cs)" by simp
    have "c # cs = [] @ g @ drop 10 (c # cs)" unfolding g by simp
    moreover have "date_shape g" using True g by simp
    ultimately show ?thesis by (metis length_0_conv not_less_zero list.size(3))
  next
    case False
    with Cons.prems have "search_date cs = Some g" by simp
    from Cons.IH [OF this] obtain u w where
      u: "cs = u @ g @ w" "date_shape g" "\<forall>i<length u. \<not> date_shape (take 10 (drop i cs))"
      by blast
    have "c # cs = (c # u) @ g @ w" using u(1) by simp
    moreover have "\<forall>i<length (c # u). \<not> date_shape (take 10 (drop i (c # cs)))"
    proof (intro allI impI)
      fix i assume i: "i < length (c # u)"
      show "\<not> date_shape (take 10 (drop i (c # cs)))"
      proof (cases i)
        case 0
        then show ?thesis using False by simp
      next
        case (Suc j)
        then have "j < length u" using i by simp
        then show ?thesis using u(3) Suc by simp
      qed
    qed
    ultimately show ?thesis using u(2) by blast
  qed
qed

lemma search_date_None:
  "search_date t = None \<Longrightarrow> sublist g t \<Longrightarrow> \<not> date_shape g"
proof (induction t)
  case Nil
  then have "g = []" by simp
  then show ?case using date_shape_length by fastforce
next
  case (Cons c cs)
  from Cons.prems(1) have nf: "\<not> date_shape (take 10 (c # cs))" and r: "search_date cs = None"
    by (simp_all split: if_splits)
  from Cons.prems(2) consider "prefix g (c # cs)" | "sublist g cs"
    by (auto simp: sublist_Cons_right)
  then show ?case
  proof cases
    case 1
    show ?thesis
    proof
      assume d: "date_shape g"
      from 1 obtain w where "c # cs = g @ w" by (auto simp: prefix_def)
      then have "take 10 (c # cs) = g" using date_shape_length [OF d] by simp
      with d nf show False by simp
    qed
  next
    case 2
    then show ?thesis using Cons.IH [OF r] by simp
  qed
qed

lemma search_date_None_iff:
  "search_date t = None \<longleftrightarrow> \<not> contains_match date_shape t"
proof
  assume "search_date t = None"
  then show "\<not> contains_match date_shape t"
    using search_date_None by (auto simp: contains_match_iff)
next
  assume n: "\<not> contains_match date_shape t"
  show "search_date t = None"
  proof (rule ccontr)
    assume "search_date t \<noteq> None"
    then obtain g where "search_date t = Some g" by auto
    from search_date_Some [OF this] obtain u w where "t = u @ g @ w" "date_shape g" by blast
    then have "sublist g t \<and> date_shape g" by (auto simp: sublist_def)
    with n show False by (auto simp: contains_match_iff)
  qed
qed

lemma parse_Some_date:
  "parse_nl_expense now text = Some (a, c, d) \<Longrightarrow> d = date_of_text now (strip (lower text))"
  by (auto simp: parse_nl_expense_def date_of_text_def Let_def split: option.splits if_splits)

text \<open>
  Claim C7. For a text the parser accepts, the date follows this order on the lower-cased,
  trimmed text: with "today" in it, now; else with "yesterday" in it, now minus one day;
  else with a substring of the shape YYYY-MM-DD in it, the first such substring as
  \<^verbatim>\<open>fromisoformat\<close> reads it, and now when that fails; else now.
\<close>

theorem parse_date_priority:
  assumes "parse_nl_expense now text = Some (a, c, d)"
  shows "(sublist ''today'' (strip (lower text)) \<longrightarrow> d = now)
       \<and> (\<not> sublist ''today'' (strip (lower text)) \<and> sublist ''yesterday'' (strip (lower text))
            \<longrightarrow> d = sub_one_day now)
       \<and> (\<not> sublist ''today'' (strip (lower text)) \<and> \<not> sublist ''yesterday'' (strip (lower text))
            \<and> contains_match date_shape (strip (lower text))
            \<longrightarrow> (\<exists>u g w. strip (lower text) = u @ g @ w \<and> date_shape g
                   \<and> (\<forall>i<length u. \<not> date_shape (take 10 (drop i (strip (lower text)))))
                   \<and> d = (case fromisoformat g of Some x \<Rightarrow> x | None \<Rightarrow> now)))
       \<and> (\<not> sublist ''today'' (strip (lower text)) \<and> \<not> sublist ''yesterday'' (strip (lower text))
            \<and> \<not> contains_match date_shape (strip (lower text))
            \<longrightarrow> d = now)"
proof -
  define t where "t = strip (lower text)"
  have d: "d = date_of_text now t" using parse_Some_date [OF assms] by (simp add: t_def)
  have 1: "sublist ''today'' t \<longrightarrow> d = now" by (simp add: d date_of_text_def)
  have 2: "\<not> sublist ''today'' t \<and> sublist ''yesterday'' t \<longrightarrow> d = sub_one_day now"
    by (simp add: d date_of_text_def)
  have 3: "\<not> sublist ''today'' t \<and> \<not> sublist ''yesterday'' t \<and> contains_match date_shape t
            \<longrightarrow> (\<exists>u g w. t = u @ g @ w \<and> date_shape g
                   \<and> (\<forall>i<length u. \<not> date_shape (take 10 (drop i t)))
                   \<and> d = (case fromisoformat g of Some x \<Rightarrow> x | None \<Rightarrow> now))"
  proof (intro impI)
    assume h: "\<not> sublist ''today'' t \<and> \<not> sublist ''yesterday'' t \<and> contains_match date_shape t"
    then have "search_date t \<noteq> None" by (simp add: search_date_None_iff)
    then obtain g where g: "search_date t = Some g" by auto
    from search_date_Some [OF g] obtain u w where
      "t = u @ g @ w" "date_shape g" "\<forall>i<length u. \<not> date_shape (take 10 (drop i t))"
      by blast
    moreover have "d = (case fromisoformat g of Some x \<Rightarrow> x | None \<Rightarrow> now)"
      using h g by (simp add: d date_of_text_def)
    ultimately show "\<exists>u g w. t = u @ g @ w \<and> date_shape g
                   \<and> (\<forall>i<length u. \<not> date_shape (take 10 (drop i t)))
                   \<and> d = (case fromisoformat g of Some x \<Rightarrow> x | None \<Rightarrow> now)"
      by blast
  qed
  have 4: "\<not> sublist ''today'' t \<and> \<not> sublist ''yesterday'' t \<and> \<not> contains_match date_shape t
            \<longrightarrow> d = now"
    by (simp add: d date_of_text_def search_date_None_iff [symmetric])
  from 1 2 3 4 show ?thesis unfolding t_def by blast
qed

text \<open>A date that \<open>fromisoformat\<close> returns is a calendar date at midnight.\<close>

lemma fromisoformat_valid: "fromisoformat g = Some x \<Longrightarrow> valid_ts x \<and> tod x = 0"
  by (auto simp: fromisoformat_def valid_ts_def Let_def split: if_splits)

text \<open>The parser on sample texts.\<close>

lemmas parse_defs = parse_nl_expense_def match_number_def float_of_match_def nat_of_digits_def
  digit_value_def categories_def fromisoformat_def date_shape_def is_dash_def
  days_in_month_def is_leap_def sub_one_day_def sublist_code prefix_code

lemma n_today: "strip (lower ''200 food today'') = ''200 food today''"
  by (simp add: str_defs)

lemma n_iso: "strip (lower ''100 on 2024-01-15 Bills'') = ''100 on 2024-01-15 bills''"
  by (simp add: str_defs)

lemma n_plain: "strip (lower ''40 shopping'') = ''40 shopping''"
  by (simp add: str_defs)

lemma p_today: "parse_nl_expense ex_now ''200 food today'' = Some (200, ''food'', ex_now)"
  by (simp add: parse_defs str_defs)

lemma p_yesterday:
  "parse_nl_expense ex_now ''5.5 Travel YESTERDAY'' = Some (11 / 2, ''travel'', ts 2024 3 14 43200)"
  by (simp add: parse_defs str_defs ex_defs)

lemma p_iso:
  "parse_nl_expense ex_now ''100 on 2024-01-15 Bills'' = Some (100, ''bills'', ts 2024 1 15 0)"
  by (simp add: parse_defs str_defs ex_defs)

lemma p_plain: "parse_nl_expense ex_now ''40 shopping'' = Some (40, ''shopping'', ex_now)"
  by (simp add: parse_defs str_defs)

lemma p_minus: "parse_nl_expense ex_now ''-50 food'' = Some (50, ''food'', ex_now)"
  by (simp add: parse_defs str_defs)

theorem parse_amount_nonneg_witness:
  "parse_nl_expense ex_now ''-50 food'' = Some (50, ''food'', ex_now) \<and> (0::rat) \<le> 50"
  using parse_amount_nonneg [OF p_minus] p_minus by simp

theorem parse_fails_exactly_when_witness:
  "blank ''   '' \<and> parse_nl_expense ex_now ''   '' = None
   \<and> \<not> contains_match decimal_shape (strip (lower ''just some text''))
   \<and> parse_nl_expense ex_now ''just some text'' = None
   \<and> \<not> sublist ''food'' (strip (lower ''50 dollars''))
   \<and> \<not> sublist ''shopping'' (strip (lower ''50 dollars''))
   \<and> \<not> sublist ''travel'' (strip (lower ''50 dollars''))
   \<and> \<not> sublist ''bills'' (strip (lower ''50 dollars''))
   \<and> parse_nl_expense ex_now ''50 dollars'' = None
   \<and> \<not> blank ''200 food today''
   \<and> contains_match decimal_shape (strip (lower ''200 food today''))
   \<and> sublist ''food'' (strip (lower ''200 food today''))
   \<and> parse_nl_expense ex_now ''200 food today'' \<noteq> None
   \<and> (\<exists>a c d. parse_nl_expense ex_now ''200 food today'' = Some (a, c, d)
         \<and> c \<in> set categories)"
proof -
  have b: "blank ''   ''" by (simp add: blank_def is_space_def)
  have n: "\<not> contains_match decimal_shape (strip (lower ''just some text''))"
    by (simp add: contains_decimal_iff str_defs)
  have w: "\<forall>c \<in> set categories. \<not> sublist c (strip (lower ''50 dollars''))"
    by (simp add: categories_def str_defs sublist_code prefix_code)
  have g1: "\<not> blank ''200 food today''" by (simp add: blank_def is_space_def)
  have g2: "contains_match decimal_shape (strip (lower ''200 food today''))"
    by (simp add: contains_decimal_iff n_today is_digit_def)
  have g3: "sublist ''food'' (strip (lower ''200 food today''))"
    by (simp add: n_today sublist_code prefix_code)
  have g4: "''food'' \<in> set categories" by (simp add: categories_def)
  note T = parse_fails_exactly_when
  from T [of ex_now "''   ''"] b have 1: "parse_nl_expense ex_now ''   '' = None" by blast
  from T [of ex_now "''just some text''"] n
  have 2: "parse_nl_expense ex_now ''just some text'' = None" by blast
  from T [of ex_now "''50 dollars''"] w
  have 3: "parse_nl_expense ex_now ''50 dollars'' = None" by blast
  from T [of ex_now "''200 food today''"] g1 g2 g3 g4
  have 4: "parse_nl_expense ex_now ''200 food today'' \<noteq> None
           \<and> (\<exists>a c d. parse_nl_expense ex_now ''200 food today'' = Some (a, c, d)
                 \<and> c \<in> set categories)"
    by blast
  have w': "\<not> sublist ''food'' (strip (lower ''50 dollars''))
          \<and> \<not> sublist ''shopping'' (strip (lower ''50 dollars''))
          \<and> \<not> sublist ''travel'' (strip (lower ''50 dollars''))
          \<and> \<not> sublist ''bills'' (strip (lower ''50 dollars''))"
    using w by (simp add: categories_def)
  from b n w' g1 g2 g3 1 2 3 4 show ?thesis by blast
qed

lemma sd_iso: "search_date ''100 on 2024-01-15 bills'' = Some ''2024-01-15''"
  by (simp add: date_shape_def is_dash_def is_digit_def)

lemma sd_plain: "search_date ''40 shopping'' = None"
  by (simp add: date_shape_def is_dash_def is_digit_def)

theorem parse_date_priority_witness:
  "parse_nl_expense ex_now ''200 food today'' = Some (200, ''food'', ex_now)
   \<and> sublist ''today'' (strip (lower ''200 food today''))
   \<and> parse_nl_expense ex_now ''5.5 Travel YESTERDAY'' = Some (11 / 2, ''travel'', ts 2024 3 14 43200)
   \<and> \<not> sublist ''today'' (strip (lower ''5.5 Travel YESTERDAY''))
   \<and> sublist ''yesterday'' (strip (lower ''5.5 Travel YESTERDAY''))
   \<and> ts 2024 3 14 43200 = sub_one_day ex_now
   \<and> parse_nl_expense ex_now ''100 on 2024-01-15 Bills'' = Some (100, ''bills'', ts 2024 1 15 0)
   \<and> \<not> sublist ''today'' (strip (lower ''100 on 2024-01-15 Bills''))
   \<and> \<not> sublist ''yesterday'' (strip (lower ''100 on 2024-01-15 Bills''))
   \<and> contains_match date_shape (strip (lower ''100 on 2024-01-15 Bills''))
   \<and> (\<exists>u g w. strip (lower ''100 on 2024-01-15 Bills'') = u @ g @ w \<and> date_shape g
         \<and> ts 2024 1 15 0 = (case fromisoformat g of Some x \<Rightarrow> x | None \<Rightarrow> ex_now))
   \<and> parse_nl_expense ex_now ''40 shopping'' = Some (40, ''shopping'', ex_now)
   \<and> \<not> sublist ''today'' (strip (lower ''40 shopping''))
   \<and> \<not> sublist ''yesterday'' (strip (lower ''40 shopping''))
   \<and> \<not> contains_match date_shape (strip (lower ''40 shopping''))"
proof -
  have t1: "sublist ''today'' (strip (lower ''200 food today''))"
    by (simp add: n_today sublist_code prefix_code)
  have y1: "\<not> sublist ''today'' (strip (lower ''5.5 Travel YESTERDAY''))"
    and y2: "sublist ''yesterday'' (strip (lower ''5.5 Travel YESTERDAY''))"
    by (simp_all add: str_defs sublist_code prefix_code)
  have i1: "\<not> sublist ''today'' (strip (lower ''100 on 2024-01-15 Bills''))"
    and i2: "\<not> sublist ''yesterday'' (strip (lower ''100 on 2024-01-15 Bills''))"
    by (simp_all add: n_iso sublist_code prefix_code)
  have i3: "contains_match date_shape (strip (lower ''100 on 2024-01-15 Bills''))"
    unfolding n_iso using search_date_None_iff [of "''100 on 2024-01-15 bills''"] sd_iso
    by (metis option.distinct(1))
  have q1: "\<not> sublist ''today'' (strip (lower ''40 shopping''))"
    and q2: "\<not> sublist ''yesterday'' (strip (lower ''40 shopping''))"
    by (simp_all add: str_defs sublist_code prefix_code)
  have q3: "\<not> contains_match date_shape (strip (lower ''40 shopping''))"
    unfolding n_plain using search_date_None_iff [of "''40 shopping''"] sd_plain by blast
  from parse_date_priority [OF p_yesterday] y1 y2
  have y3: "ts 2024 3 14 43200 = sub_one_day ex_now" by blast
  from parse_date_priority [OF p_iso] i1 i2 i3
  have i4: "\<exists>u g w. strip (lower ''100 on 2024-01-15 Bills'') = u @ g @ w \<and> date_shape g
         \<and> ts 2024 1 15 0 = (case fromisoformat g of Some x \<Rightarrow> x | None \<Rightarrow> ex_now)"
    by blast
  from p_today t1 p_yesterday y1 y2 y3 p_iso i1 i2 i3 i4 p_plain q1 q2 q3
  show ?thesis by blast
qed

subsection \<open>Record normalisers\<close>
















end
